theory Spec2Isabelle
  imports Complex_Main "HOL-Library.Word"
begin

section \<open>Data model\<close>

text \<open>
  The repository holds two variants of the \<open>App\<close> component (the "Voice Scribe Pro"
  component and the "Voice Scribe" component) over the same \<open>types.ts\<close>. Their session
  logic is the same statement for statement; they differ in the literal texts shown to
  the user, in the clear-all control and in the exported file. Where they differ the
  model takes the variant as a parameter.
\<close>

datatype variant = ScribePro | Scribe

text \<open>
  A JavaScript string is a sequence of 16-bit code units. \<open>js\<close> embeds an ASCII literal.
\<close>

type_synonym js_string = "16 word list"

definition js :: "string \<Rightarrow> js_string" where
  "js cs = map (\<lambda>c. of_nat (of_char c)) cs"

text \<open>\<open>types.ts\<close>: the enum \<open>AppState\<close> and the interface \<open>TranscriptionSegment\<close>.\<close>

datatype AppState = IDLE | CONNECTING | LISTENING | ERROR

datatype segment_type = User | Model

record TranscriptionSegment =
  seg_id :: js_string
  seg_text :: js_string
  seg_timestamp :: int
  seg_type :: segment_type

text \<open>
  The texts shown to the user are Myanmar string literals (and two English ones in the
  first variant). Each literal is a fixed non-empty string; the model names it.
\<close>

datatype ui_text =
    MIC_DENIED          \<comment> \<open>the literal of the \<open>catch\<close> of \<open>startSession\<close>\<close>
  | SESSION_ERROR       \<comment> \<open>the literal of \<open>onerror\<close>\<close>
  | NOTHING_TO_SAVE     \<comment> \<open>the literal of the alert of \<open>saveAsWord\<close>\<close>
  | COPIED              \<comment> \<open>the literal of the alert after copying\<close>
  | CLEAR_QUESTION      \<comment> \<open>the literal of the confirmation dialog\<close>

text \<open>
  A downloaded document: the file name and, for each segment, the text and the local
  time string of its block. The markup around the blocks is fixed text and is left out.
\<close>

record document =
  doc_name :: js_string
  doc_blocks :: "(js_string \<times> js_string) list"

text \<open>
  The calls on the browser and on the transcription SDK that obtain or release a
  resource or reach the user, in the order the code makes them. Handles (\<open>nat\<close>) name
  the stream, audio context, script processor and session promise the environment hands
  out. Logging (\<open>console.error\<close>) and the wiring of audio nodes and of the download link
  are left out.
\<close>

datatype effect =
    GetUserMedia nat
  | NewAudioContext nat
  | LiveConnect nat
  | CreateScriptProcessor nat
  | DisconnectProcessor nat
  | StopTracks nat
  | CloseAudioContext nat
  | CloseSession nat
  | Alert ui_text
  | Confirm ui_text
  | ClipboardWrite js_string
  | Download document

text \<open>
  What becomes of an awaited promise. \<open>Rejects\<close> also stands for a promise that never
  settles: in both cases the code after the \<open>await\<close> does not run.
\<close>

datatype settle = Fulfils | Rejects

text \<open>
  The component: the four \<open>useState\<close> cells, the four resource \<open>useRef\<close> cells, and the
  trace of calls made on the environment so far. The session promise is kept with what
  becomes of it.
\<close>

record app =
  appState :: AppState
  transcriptions :: "TranscriptionSegment list"
  currentDraft :: js_string
  errorMessage :: "ui_text option"
  scriptProcessorRef :: "nat option"
  streamRef :: "nat option"
  audioContextRef :: "nat option"
  sessionPromiseRef :: "(nat \<times> settle) option"
  trace :: "effect list"

definition initial :: app where
  "initial = \<lparr> appState = IDLE, transcriptions = [], currentDraft = [], errorMessage = None,
     scriptProcessorRef = None, streamRef = None, audioContextRef = None,
     sessionPromiseRef = None, trace = [] \<rparr>"

section \<open>Transcript accumulator\<close>

text \<open>
  \<open>String.prototype.trim\<close> removes the white space and line terminator code units of
  ECMAScript from both ends.
\<close>

definition isWhiteSpace :: "16 word \<Rightarrow> bool" where
  "isWhiteSpace c =
     (c = 0x0009 \<or> c = 0x000A \<or> c = 0x000B \<or> c = 0x000C \<or> c = 0x000D \<or> c = 0x0020 \<or>
      c = 0x00A0 \<or> c = 0x1680 \<or> (0x2000 \<le> c \<and> c \<le> 0x200A) \<or> c = 0x2028 \<or>
      c = 0x2029 \<or> c = 0x202F \<or> c = 0x205F \<or> c = 0x3000 \<or> c = 0xFEFF)"

definition trim :: "js_string \<Rightarrow> js_string" where
  "trim s = rev (dropWhile isWhiteSpace (rev (dropWhile isWhiteSpace s)))"

text \<open>
  A \<open>LiveServerMessage\<close> as \<open>onmessage\<close> reads it: the text of
  \<open>serverContent.inputTranscription\<close> when that is present (a string, the fragment of
  the event), and \<open>serverContent.turnComplete\<close>.
\<close>

record message =
  inputTranscription :: "js_string option"
  turnComplete :: bool

text \<open>What the environment supplies when a segment is built: \<open>crypto.randomUUID()\<close> and
  \<open>Date.now()\<close>.\<close>

record tick =
  randomUUID :: js_string
  now :: int

text \<open>The first \<open>if\<close> of \<open>onmessage\<close>: \<open>setCurrentDraft(prev => prev + text)\<close>.\<close>

definition onInputTranscription :: "message \<Rightarrow> app \<Rightarrow> app" where
  "onInputTranscription m s =
     (case inputTranscription m of
        None \<Rightarrow> s
      | Some t \<Rightarrow> s\<lparr>currentDraft := currentDraft s @ t\<rparr>)"

text \<open>
  The second \<open>if\<close> of \<open>onmessage\<close>: the updater of \<open>setCurrentDraft\<close> trims the draft,
  appends a segment to the list when the trimmed draft is a non-empty string, and
  returns the empty string. The updater is taken to run once for each event.
\<close>

definition onTurnComplete :: "tick \<Rightarrow> message \<Rightarrow> app \<Rightarrow> app" where
  "onTurnComplete k m s =
     (if turnComplete m then
        (let trimmed = trim (currentDraft s);
             s' = (if trimmed \<noteq> [] then
                     s\<lparr>transcriptions := transcriptions s @
                          [\<lparr> seg_id = randomUUID k, seg_text = trimmed,
                             seg_timestamp = now k, seg_type = User \<rparr>]\<rparr>
                   else s)
         in s'\<lparr>currentDraft := []\<rparr>)
      else s)"

definition onmessage :: "tick \<Rightarrow> message \<Rightarrow> app \<Rightarrow> app" where
  "onmessage k m s = onTurnComplete k m (onInputTranscription m s)"

text \<open>Messages handled one after the other, in arrival order.\<close>

fun onmessages :: "(tick \<times> message) list \<Rightarrow> app \<Rightarrow> app" where
  "onmessages [] s = s"
| "onmessages ((k, m) # ms) s = onmessages ms (onmessage k m s)"

text \<open>The two kinds of event of the spec, as messages.\<close>

definition partial_transcript :: "js_string \<Rightarrow> message" where
  "partial_transcript t = \<lparr> inputTranscription = Some t, turnComplete = False \<rparr>"

definition turn_complete :: message where
  "turn_complete = \<lparr> inputTranscription = None, turnComplete = True \<rparr>"

section \<open>Session lifecycle controller\<close>

text \<open>
  The end of \<open>stopSession\<close>: when a session promise is stored it is awaited, the session
  is closed and the ref is cleared; then the state is set to \<open>IDLE\<close>. The source has no
  handler around the \<open>await\<close>: when the promise rejects, the function ends there, with
  the ref and the state as they were.
\<close>

definition stopSessionEnd :: "app \<Rightarrow> app" where
  "stopSessionEnd s =
     (case sessionPromiseRef s of
        None \<Rightarrow> s\<lparr>appState := IDLE\<rparr>
      | Some (c, Rejects) \<Rightarrow> s
      | Some (c, Fulfils) \<Rightarrow>
          s\<lparr>sessionPromiseRef := None, trace := trace s @ [CloseSession c],
            appState := IDLE\<rparr>)"

text \<open>
  \<open>stopSession\<close>, given what becomes of the promise of \<open>AudioContext.close\<close>. The script
  processor and the stream are released and their refs cleared. When an audio context
  is stored, \<open>close\<close> is called on it and awaited, again outside any handler: when it
  rejects, the function ends there, with the audio context ref, the session ref and the
  state as they were. Otherwise the ref is cleared and the function goes on to its end.
  The source reads and writes no other cell.
\<close>

definition stopSession :: "settle \<Rightarrow> app \<Rightarrow> app" where
  "stopSession closing s =
     (let s1 = (case scriptProcessorRef s of
                  None \<Rightarrow> s
                | Some p \<Rightarrow> s\<lparr>scriptProcessorRef := None,
                              trace := trace s @ [DisconnectProcessor p]\<rparr>);
          s2 = (case streamRef s1 of
                  None \<Rightarrow> s1
                | Some m \<Rightarrow> s1\<lparr>streamRef := None, trace := trace s1 @ [StopTracks m]\<rparr>)
      in case audioContextRef s2 of
           None \<Rightarrow> stopSessionEnd s2
         | Some a \<Rightarrow>
             (case closing of
                Rejects \<Rightarrow> s2\<lparr>trace := trace s2 @ [CloseAudioContext a]\<rparr>
              | Fulfils \<Rightarrow>
                  stopSessionEnd (s2\<lparr>audioContextRef := None,
                                     trace := trace s2 @ [CloseAudioContext a]\<rparr>)))"

text \<open>Whether every \<open>await\<close> that \<open>stopSession\<close> reaches in a state completes.\<close>

definition teardownCompletes :: "settle \<Rightarrow> app \<Rightarrow> bool" where
  "teardownCompletes closing s =
     ((audioContextRef s = None \<or> closing = Fulfils) \<and>
      (case sessionPromiseRef s of None \<Rightarrow> True | Some (c, f) \<Rightarrow> f = Fulfils))"

text \<open>
  How the \<open>try\<close> block of \<open>startSession\<close> ends: an exception at one of its four calls
  (with the handles obtained before it), or completion with the stream, the audio
  context and the session promise. The promise that \<open>ai.live.connect\<close> returns is not
  awaited in the block, so the block completes whatever becomes of the promise
  (\<open>Rejects\<close>: the session fails to open).
\<close>

datatype start_outcome =
    ClientThrows                \<comment> \<open>\<open>new GoogleGenAI\<close> throws\<close>
  | MicrophoneDenied            \<comment> \<open>\<open>getUserMedia\<close> rejects\<close>
  | AudioContextThrows nat      \<comment> \<open>\<open>new AudioContext\<close> throws; the stream was obtained\<close>
  | ConnectThrows nat nat       \<comment> \<open>\<open>ai.live.connect\<close> throws; stream and context obtained\<close>
  | Connected nat nat nat settle  \<comment> \<open>the block completes\<close>

text \<open>The outcomes in which the \<open>try\<close> block raises.\<close>

fun raises :: "start_outcome \<Rightarrow> bool" where
  "raises (Connected m a c f) = False"
| "raises out = True"

text \<open>The \<open>catch\<close> block of \<open>startSession\<close>.\<close>

definition startCatch :: "app \<Rightarrow> app" where
  "startCatch s = s\<lparr>errorMessage := Some MIC_DENIED, appState := IDLE\<rparr>"

text \<open>
  \<open>startSession\<close>. It reads no state: it sets \<open>CONNECTING\<close>, clears the error message
  and runs the block. The session promise is stored without being awaited.
\<close>

definition startSession :: "start_outcome \<Rightarrow> app \<Rightarrow> app" where
  "startSession out s =
     (let s0 = s\<lparr>appState := CONNECTING, errorMessage := None\<rparr> in
      case out of
        ClientThrows \<Rightarrow> startCatch s0
      | MicrophoneDenied \<Rightarrow> startCatch s0
      | AudioContextThrows m \<Rightarrow>
          startCatch (s0\<lparr>streamRef := Some m, trace := trace s0 @ [GetUserMedia m]\<rparr>)
      | ConnectThrows m a \<Rightarrow>
          startCatch (s0\<lparr>streamRef := Some m, audioContextRef := Some a,
                         trace := trace s0 @ [GetUserMedia m, NewAudioContext a]\<rparr>)
      | Connected m a c f \<Rightarrow>
          s0\<lparr>streamRef := Some m, audioContextRef := Some a,
             sessionPromiseRef := Some (c, f),
             trace := trace s0 @ [GetUserMedia m, NewAudioContext a, LiveConnect c]\<rparr>)"

text \<open>
  The session callbacks \<open>onopen\<close>, \<open>onerror\<close> and \<open>onclose\<close>. \<open>onopen\<close> also installs
  the audio callback, which encodes each block and sends it on the session; that
  callback touches no cell of the component and is left out. \<open>onerror\<close> sets the message
  and calls \<open>stopSession\<close> without awaiting it. None of the callbacks looks at the
  session it belongs to or at the state.
\<close>

definition onopen :: "nat \<Rightarrow> app \<Rightarrow> app" where
  "onopen p s = s\<lparr>appState := LISTENING, scriptProcessorRef := Some p,
                   trace := trace s @ [CreateScriptProcessor p]\<rparr>"

definition onerror :: "settle \<Rightarrow> app \<Rightarrow> app" where
  "onerror closing s = stopSession closing (s\<lparr>errorMessage := Some SESSION_ERROR\<rparr>)"

definition onclose :: "app \<Rightarrow> app" where
  "onclose s = s\<lparr>appState := IDLE\<rparr>"

text \<open>
  The start/stop button: disabled while \<open>CONNECTING\<close>; its handler is \<open>stopSession\<close>
  while \<open>LISTENING\<close> and \<open>startSession\<close> otherwise.
\<close>

definition toggleClick :: "start_outcome \<Rightarrow> settle \<Rightarrow> app \<Rightarrow> app" where
  "toggleClick out closing s =
     (if appState s = CONNECTING then s
      else if appState s = LISTENING then stopSession closing s
      else startSession out s)"

text \<open>The calls that open a microphone capture or a session.\<close>

fun opens :: "effect \<Rightarrow> bool" where
  "opens (GetUserMedia m) = True"
| "opens (LiveConnect c) = True"
| "opens x = False"

section \<open>Export and utility layer\<close>

text \<open>\<open>Array.prototype.join\<close> with a separator.\<close>

fun join :: "js_string \<Rightarrow> js_string list \<Rightarrow> js_string" where
  "join sep [] = []"
| "join sep [x] = x"
| "join sep (x # y # ys) = x @ sep @ join sep (y # ys)"

definition copyAllText :: "app \<Rightarrow> app" where
  "copyAllText s =
     s\<lparr>trace := trace s @
          [ClipboardWrite (join (js [CHR 0x0A]) (map seg_text (transcriptions s))),
           Alert COPIED]\<rparr>"

text \<open>
  The name of the downloaded file. The second variant replaces every \<open>/\<close> of the date
  string by \<open>-\<close>.
\<close>

definition fileName :: "variant \<Rightarrow> js_string \<Rightarrow> js_string" where
  "fileName v dateStr =
     js ''Myanmar_Transcription_'' @
     (case v of
        ScribePro \<Rightarrow> dateStr
      | Scribe \<Rightarrow> map (\<lambda>c. if c = 0x2F then 0x2D else c) dateStr) @
     js ''.doc''"

text \<open>
  \<open>saveAsWord\<close>, given the date string and the local time string of a timestamp
  (\<open>toLocaleDateString\<close>, \<open>toLocaleTimeString\<close>). With an empty list it alerts and
  returns; otherwise it builds the document and clicks a download link for it.
\<close>

definition saveAsWord :: "variant \<Rightarrow> js_string \<Rightarrow> (int \<Rightarrow> js_string) \<Rightarrow> app \<Rightarrow> app" where
  "saveAsWord v dateStr timeStr s =
     (if length (transcriptions s) = 0 then s\<lparr>trace := trace s @ [Alert NOTHING_TO_SAVE]\<rparr>
      else s\<lparr>trace := trace s @
             [Download \<lparr> doc_name = fileName v dateStr,
                doc_blocks = map (\<lambda>t. (seg_text t, timeStr (seg_timestamp t)))
                               (transcriptions s) \<rparr>]\<rparr>)"

text \<open>\<open>clearAll\<close> of the second variant, given the answer to the confirmation dialog.\<close>

definition clearAll :: "bool \<Rightarrow> app \<Rightarrow> app" where
  "clearAll answer s =
     (let s0 = s\<lparr>trace := trace s @ [Confirm CLEAR_QUESTION]\<rparr> in
      if answer then s0\<lparr>transcriptions := [], currentDraft := []\<rparr> else s0)"

text \<open>
  The clear-all button. In the first variant its handler is the inline
  \<open>confirm(...) && setTranscriptions([])\<close>; in the second it is \<open>clearAll\<close>.
\<close>

definition clearClick :: "variant \<Rightarrow> bool \<Rightarrow> app \<Rightarrow> app" where
  "clearClick v answer s =
     (case v of
        ScribePro \<Rightarrow>
          (let s0 = s\<lparr>trace := trace s @ [Confirm CLEAR_QUESTION]\<rparr> in
           if answer then s0\<lparr>transcriptions := []\<rparr> else s0)
      | Scribe \<Rightarrow> clearAll answer s)"

section \<open>The update loop\<close>

text \<open>Every callback of the component as one event, and the step it makes.\<close>

datatype event =
    ToggleClick start_outcome settle
  | OnOpen nat
  | OnMessage tick message
  | OnError settle
  | OnClose
  | CopyClick
  | SaveClick js_string "int \<Rightarrow> js_string"
  | ClearClick bool

fun step :: "variant \<Rightarrow> event \<Rightarrow> app \<Rightarrow> app" where
  "step v (ToggleClick out closing) s = toggleClick out closing s"
| "step v (OnOpen p) s = onopen p s"
| "step v (OnMessage k m) s = onmessage k m s"
| "step v (OnError closing) s = onerror closing s"
| "step v OnClose s = onclose s"
| "step v CopyClick s = copyAllText s"
| "step v (SaveClick d t) s = saveAsWord v d t s"
| "step v (ClearClick b) s = clearClick v b s"

text \<open>The edges of the session state machine of the spec.\<close>

definition transition :: "AppState \<Rightarrow> AppState \<Rightarrow> bool" where
  "transition a b =
     ((a = IDLE \<and> b = CONNECTING) \<or> (a = CONNECTING \<and> b = LISTENING) \<or>
      (a = LISTENING \<and> b = IDLE) \<or> (a = CONNECTING \<and> b = IDLE))"

text \<open>The states of the component after each event of a run.\<close>

fun run :: "variant \<Rightarrow> event list \<Rightarrow> app \<Rightarrow> app list" where
  "run v [] s = []"
| "run v (e # es) s = step v e s # run v es (step v e s)"

text \<open>
  A sequence of session states follows the state machine from \<open>a\<close> when each state is
  the one before it or is reached from it along an edge.
\<close>

fun follows :: "AppState \<Rightarrow> AppState list \<Rightarrow> bool" where
  "follows a [] = True"
| "follows a (b # bs) = ((b = a \<or> transition a b) \<and> follows b bs)"

text \<open>A run in which every open callback arrives while the state is \<open>CONNECTING\<close>.\<close>

fun openWhileConnecting :: "variant \<Rightarrow> event list \<Rightarrow> app \<Rightarrow> bool" where
  "openWhileConnecting v [] s = True"
| "openWhileConnecting v (e # es) s =
     ((case e of OnOpen p \<Rightarrow> appState s = CONNECTING | _ \<Rightarrow> True) \<and>
      openWhileConnecting v es (step v e s))"

section \<open>PCM frame encoder\<close>

text \<open>An element of the \<open>Float32Array\<close> handed to the encoder.\<close>

datatype sample = Finite real | PosInfinity | NegInfinity | NaN

text \<open>
  Modelled from the spec: \<open>createPcmBlob\<close> of \<open>services/audioUtils\<close> is imported by the
  component; its body is missing from the sources. The spec's contract: a
  non-finite sample is silence; a finite one is clamped to \<open>[-1, 1]\<close>, then scaled by
  32767 when positive and by 32768 when negative, and stored as a signed 16-bit integer,
  low byte first. The spec does not say how a fractional product becomes an integer, so
  the rounding \<open>rnd\<close> is a parameter.
\<close>

definition clampSample :: "real \<Rightarrow> real" where
  "clampSample x = max (- 1) (min 1 x)"

text \<open>Modelled from the spec: the scale factor, 32767 for positive and 32768 for negative
  input (the body of \<open>createPcmBlob\<close> is missing).\<close>

definition scaleSample :: "real \<Rightarrow> real" where
  "scaleSample x = (if x < 0 then x * 32768 else x * 32767)"

text \<open>Modelled from the spec: one sample to a signed 16-bit integer, a non-finite sample
  to zero (the body of \<open>createPcmBlob\<close> is missing).\<close>

definition encodeSample :: "(real \<Rightarrow> int) \<Rightarrow> sample \<Rightarrow> 16 word" where
  "encodeSample rnd x =
     (case x of
        Finite r \<Rightarrow> word_of_int (rnd (scaleSample (clampSample r)))
      | PosInfinity \<Rightarrow> 0
      | NegInfinity \<Rightarrow> 0
      | NaN \<Rightarrow> 0)"

text \<open>Modelled from the spec: the two bytes of a 16-bit integer, low byte first (the body
  of \<open>createPcmBlob\<close> is missing).\<close>

definition littleEndian :: "16 word \<Rightarrow> 8 word list" where
  "littleEndian w = [ucast w, ucast (drop_bit 8 w)]"

text \<open>Modelled from the spec: the binary buffer of a block of samples (the body of
  \<open>createPcmBlob\<close> is missing).\<close>

definition createPcmBlob :: "(real \<Rightarrow> int) \<Rightarrow> sample list \<Rightarrow> 8 word list" where
  "createPcmBlob rnd xs = concat (map (\<lambda>x. littleEndian (encodeSample rnd x)) xs)"

section \<open>Example states\<close>

text \<open>
  A session that was started from the initial state and opened, and the same session
  after two partial transcripts arrived, which leave the draft \<open>" abc "\<close> pending.
\<close>

definition tick_example :: tick where
  "tick_example = \<lparr> randomUUID = js ''u1'', now = 1000 \<rparr>"

definition listening_example :: app where
  "listening_example = onopen 1 (toggleClick (Connected 1 1 1 Fulfils) Fulfils initial)"

definition pending_example :: app where
  "pending_example =
     onmessages [(tick_example, partial_transcript (js '' ab'')),
                 (tick_example, partial_transcript (js ''c ''))] listening_example"

text \<open>The pending session after a turn-complete event: one committed segment.\<close>

definition committed_example :: app where
  "committed_example = onmessage tick_example turn_complete pending_example"

text \<open>
  A run of six events: a session is started, opens and is stopped by the user; the
  user starts a second session; the close callback of the first session, whose socket
  \<open>stopSession\<close> closed, arrives only now; then the second session opens.
\<close>

definition late_close_run :: "event list" where
  "late_close_run =
     [ToggleClick (Connected 1 1 1 Fulfils) Fulfils, OnOpen 1,
      ToggleClick (Connected 1 1 1 Fulfils) Fulfils,
      ToggleClick (Connected 2 2 2 Fulfils) Fulfils, OnClose, OnOpen 2]"

text \<open>The same user actions with each callback arriving in its own session.\<close>

definition orderly_run :: "event list" where
  "orderly_run =
     [ToggleClick (Connected 1 1 1 Fulfils) Fulfils, OnOpen 1,
      ToggleClick (Connected 1 1 1 Fulfils) Fulfils, OnClose,
      ToggleClick (Connected 2 2 2 Fulfils) Fulfils, OnOpen 2]"

section \<open>Auxiliary facts\<close>

lemma dropWhile_all_iff:
  "(\<forall>x\<in>set (dropWhile P xs). P x) \<longleftrightarrow> dropWhile P xs = []"
proof
  assume all: "\<forall>x\<in>set (dropWhile P xs). P x"
  show "dropWhile P xs = []"
  proof (rule ccontr)
    assume ne: "dropWhile P xs \<noteq> []"
    then have "\<not> P (hd (dropWhile P xs))" by (rule hd_dropWhile)
    moreover from ne have "hd (dropWhile P xs) \<in> set (dropWhile P xs)" by simp
    ultimately show False using all by blast
  qed
qed (auto dest: set_dropWhileD)

text \<open>The trimmed string is empty exactly when every code unit is white space.\<close>

lemma trim_Nil_iff: "trim s = [] \<longleftrightarrow> list_all isWhiteSpace s"
proof -
  have "trim s = [] \<longleftrightarrow> (\<forall>x\<in>set (dropWhile isWhiteSpace s). isWhiteSpace x)"
    by (simp add: trim_def dropWhile_eq_Nil_conv)
  also have "\<dots> \<longleftrightarrow> dropWhile isWhiteSpace s = []"
    by (rule dropWhile_all_iff)
  also have "\<dots> \<longleftrightarrow> list_all isWhiteSpace s"
    by (simp add: dropWhile_eq_Nil_conv list_all_iff)
  finally show ?thesis .
qed

lemma trim_abc: "trim (js '' abc '') = js ''abc''"
  by (simp add: js_def trim_def isWhiteSpace_def)

lemma onmessage_partial:
  "onmessage k (partial_transcript t) s = s\<lparr>currentDraft := currentDraft s @ t\<rparr>"
  by (simp add: onmessage_def onTurnComplete_def onInputTranscription_def
      partial_transcript_def)

lemma onmessages_partial:
  "onmessages (map (\<lambda>(k, t). (k, partial_transcript t)) kts) s =
     s\<lparr>currentDraft := currentDraft s @ concat (map snd kts)\<rparr>"
  by (induction kts arbitrary: s) (auto simp: onmessage_partial)

lemma listening_example_eq:
  "listening_example =
     \<lparr> appState = LISTENING, transcriptions = [], currentDraft = [],
       errorMessage = None, scriptProcessorRef = Some 1, streamRef = Some 1,
       audioContextRef = Some 1, sessionPromiseRef = Some (1, Fulfils),
       trace = [GetUserMedia 1, NewAudioContext 1, LiveConnect 1,
                CreateScriptProcessor 1] \<rparr>"
  by (simp add: listening_example_def initial_def toggleClick_def startSession_def
      onopen_def)

lemma pending_example_eq:
  "pending_example =
     \<lparr> appState = LISTENING, transcriptions = [], currentDraft = js '' abc '',
       errorMessage = None, scriptProcessorRef = Some 1, streamRef = Some 1,
       audioContextRef = Some 1, sessionPromiseRef = Some (1, Fulfils),
       trace = [GetUserMedia 1, NewAudioContext 1, LiveConnect 1,
                CreateScriptProcessor 1] \<rparr>"
  by (simp add: pending_example_def listening_example_eq onmessage_partial js_def)

lemma committed_example_eq:
  "committed_example =
     \<lparr> appState = LISTENING,
       transcriptions = [\<lparr> seg_id = js ''u1'', seg_text = js ''abc'',
                           seg_timestamp = 1000, seg_type = User \<rparr>],
       currentDraft = [],
       errorMessage = None, scriptProcessorRef = Some 1, streamRef = Some 1,
       audioContextRef = Some 1, sessionPromiseRef = Some (1, Fulfils),
       trace = [GetUserMedia 1, NewAudioContext 1, LiveConnect 1,
                CreateScriptProcessor 1] \<rparr>"
  by (simp add: committed_example_def pending_example_eq onmessage_def
      onInputTranscription_def onTurnComplete_def turn_complete_def tick_example_def)
     (simp add: js_def trim_def isWhiteSpace_def)

text \<open>What \<open>stopSession\<close> does to the session state, the refs and the trace.\<close>

lemma appState_stopSession:
  "appState (stopSession c s) = (if teardownCompletes c s then IDLE else appState s)"
  by (simp add: stopSession_def stopSessionEnd_def teardownCompletes_def Let_def
      split: option.splits settle.splits prod.splits)

lemma refs_stopSession:
  assumes "teardownCompletes c s"
  shows "scriptProcessorRef (stopSession c s) = None \<and> streamRef (stopSession c s) = None \<and>
         audioContextRef (stopSession c s) = None \<and>
         sessionPromiseRef (stopSession c s) = None"
  using assms
  by (cases c)
    (auto simp: stopSession_def stopSessionEnd_def teardownCompletes_def Let_def
      split: option.splits settle.splits prod.splits)

lemma opens_stopSession:
  "filter opens (trace (stopSession c s)) = filter opens (trace s)"
  by (simp add: stopSession_def stopSessionEnd_def Let_def
      split: option.splits settle.splits prod.splits)

lemma teardownCompletes_errorMessage:
  "teardownCompletes c (s\<lparr>errorMessage := x\<rparr>) = teardownCompletes c s"
  by (simp add: teardownCompletes_def)

lemma appState_startSession:
  "appState (startSession out s) = (if raises out then IDLE else CONNECTING)"
  by (cases out) (simp_all add: startSession_def startCatch_def)

lemma appState_onmessage: "appState (onmessage k m s) = appState s"
  by (simp add: onmessage_def onTurnComplete_def onInputTranscription_def Let_def
      split: option.splits)

text \<open>The session state after a step, read off the event and the state before it.\<close>

lemma appState_step:
  "appState (step v e s) =
     (case e of
        ToggleClick out c \<Rightarrow>
          (if appState s = CONNECTING then CONNECTING
           else if appState s = LISTENING then
             (if teardownCompletes c s then IDLE else LISTENING)
           else if raises out then IDLE else CONNECTING)
      | OnOpen p \<Rightarrow> LISTENING
      | OnError c \<Rightarrow> (if teardownCompletes c s then IDLE else appState s)
      | OnClose \<Rightarrow> IDLE
      | _ \<Rightarrow> appState s)"
  by (cases e; cases v)
    (simp_all add: toggleClick_def appState_stopSession appState_startSession onopen_def
      onerror_def onclose_def appState_onmessage copyAllText_def saveAsWord_def
      clearClick_def clearAll_def Let_def teardownCompletes_errorMessage)

text \<open>
  One step from a state other than \<open>ERROR\<close>, the open callback arriving only while
  \<open>CONNECTING\<close>: the state stays or moves along an edge, and is not \<open>ERROR\<close>.
\<close>

lemma step_follows:
  assumes "appState s \<noteq> ERROR"
    and "case e of OnOpen p \<Rightarrow> appState s = CONNECTING | _ \<Rightarrow> True"
  shows "appState (step v e s) \<noteq> ERROR \<and>
         (appState (step v e s) = appState s \<or>
          transition (appState s) (appState (step v e s)))"
  using assms
  by (cases e; cases "appState s")
    (auto simp: appState_step transition_def simp del: step.simps)

lemma run_follows:
  assumes "appState s \<noteq> ERROR" and "openWhileConnecting v es s"
  shows "follows (appState s) (map appState (run v es s)) \<and>
         ERROR \<notin> set (map appState (run v es s))"
  using assms
proof (induction es arbitrary: s)
  case Nil
  then show ?case by simp
next
  case (Cons e es)
  from Cons.prems have pre: "case e of OnOpen p \<Rightarrow> appState s = CONNECTING | _ \<Rightarrow> True"
    and rest: "openWhileConnecting v es (step v e s)"
    by simp_all
  from step_follows [OF Cons.prems(1) pre, of v]
  have ne: "appState (step v e s) \<noteq> ERROR"
    and edge: "appState (step v e s) = appState s \<or>
               transition (appState s) (appState (step v e s))"
    by simp_all
  from Cons.IH [OF ne rest] edge ne show ?case
    by (simp del: step.simps)
qed

text \<open>Without confirmation the clear-all button of either variant only shows the dialog.\<close>

lemma clear_unconfirmed:
  "clearClick v False s = s\<lparr>trace := trace s @ [Confirm CLEAR_QUESTION]\<rparr>"
  by (cases v) (simp_all add: clearClick_def clearAll_def)

text \<open>\<open>clearAll\<close> of the second variant empties the list and the draft when confirmed.\<close>

lemma clearAll_confirmed:
  "transcriptions (clearAll True s) = [] \<and> currentDraft (clearAll True s) = []"
  by (simp add: clearAll_def)

section \<open>Transcript accumulator: the claims\<close>

text \<open>
  Claim C1. A message with \<open>turnComplete\<close> set always leaves the draft empty. When the
  draft accumulated so far (including a fragment carried by the same message) is empty
  or all white space, the list of segments is unchanged. Otherwise exactly one segment
  is appended at the end of the list, and its text is the trimmed draft.
\<close>

theorem turn_complete_commits:
  assumes "turnComplete m"
  shows "currentDraft (onmessage k m s) = [] \<and>
         (if list_all isWhiteSpace (currentDraft (onInputTranscription m s))
          then transcriptions (onmessage k m s) = transcriptions s
          else trim (currentDraft (onInputTranscription m s)) \<noteq> [] \<and>
               transcriptions (onmessage k m s) =
                 transcriptions s @
                 [\<lparr> seg_id = randomUUID k,
                    seg_text = trim (currentDraft (onInputTranscription m s)),
                    seg_timestamp = now k, seg_type = User \<rparr>])"
proof -
  have tr: "transcriptions (onInputTranscription m s) = transcriptions s"
    by (simp add: onInputTranscription_def split: option.splits)
  show ?thesis using assms tr
    by (simp add: onmessage_def onTurnComplete_def Let_def trim_Nil_iff)
qed

text \<open>
  C1 at the pending draft \<open>" abc "\<close>: the turn-complete event empties the draft and
  commits the one segment \<open>"abc"\<close>.
\<close>

theorem turn_complete_commits_witness:
  "turnComplete turn_complete \<and>
   currentDraft (onmessage tick_example turn_complete pending_example) = [] \<and>
   map seg_text (transcriptions (onmessage tick_example turn_complete pending_example)) =
     [js ''abc'']"
proof -
  have t: "turnComplete turn_complete" by (simp add: turn_complete_def)
  have d: "currentDraft (onInputTranscription turn_complete pending_example) = js '' abc ''"
    by (simp add: onInputTranscription_def turn_complete_def pending_example_eq)
  have w: "\<not> list_all isWhiteSpace (js '' abc '')"
    by (simp add: js_def isWhiteSpace_def)
  from turn_complete_commits [OF t, of tick_example pending_example] d w
  show ?thesis using t by (simp add: trim_abc pending_example_eq)
qed

text \<open>
  Claim C2. Starting from an empty draft, after any sequence of partial-transcript
  events the draft is the concatenation of their fragments in arrival order, verbatim.
\<close>

theorem partial_transcripts_concatenate:
  assumes "currentDraft s = []"
  shows "currentDraft (onmessages (map (\<lambda>(k, t). (k, partial_transcript t)) kts) s) =
           concat (map snd kts)"
  using assms by (simp add: onmessages_partial)

text \<open>C2 at the fragments \<open>" ab"\<close> and \<open>"c "\<close>: the white space is kept.\<close>

theorem partial_transcripts_concatenate_witness:
  "currentDraft listening_example = [] \<and>
   currentDraft
     (onmessages [(tick_example, partial_transcript (js '' ab'')),
                  (tick_example, partial_transcript (js ''c ''))] listening_example) =
     js '' abc ''"
proof -
  have e: "currentDraft listening_example = []" by (simp add: listening_example_eq)
  from partial_transcripts_concatenate
    [OF e, of "[(tick_example, js '' ab''), (tick_example, js ''c '')]"]
  show ?thesis using e by (simp add: js_def)
qed

text \<open>
  Claim C10. A partial-transcript event changes the draft only, by appending its
  fragment: the list of segments, the session state, the error message and every other
  cell are as before.
\<close>

theorem partial_transcript_frame:
  "onmessage k (partial_transcript t) s = s\<lparr>currentDraft := currentDraft s @ t\<rparr> \<and>
   transcriptions (onmessage k (partial_transcript t) s) = transcriptions s \<and>
   appState (onmessage k (partial_transcript t) s) = appState s \<and>
   errorMessage (onmessage k (partial_transcript t) s) = errorMessage s"
  by (simp add: onmessage_partial)

section \<open>Session lifecycle controller: the claims\<close>

text \<open>
  Claim C3, as the code has it: \<open>stopSession\<close> leaves the draft and the list of segments
  as they were, however its awaited calls end. It creates no segment, and it does not
  discard the pending draft.
\<close>

theorem stop_leaves_draft_and_log:
  "currentDraft (stopSession c s) = currentDraft s \<and>
   transcriptions (stopSession c s) = transcriptions s"
  by (simp add: stopSession_def stopSessionEnd_def Let_def
      split: option.splits settle.splits prod.splits)

text \<open>
  C3 as stated fails: with the draft \<open>" abc "\<close> pending, the draft after \<open>stopSession\<close>
  is still \<open>" abc "\<close>, and after the next start a turn-complete event commits it.
\<close>

theorem stop_keeps_draft_counterexample:
  "currentDraft pending_example = js '' abc '' \<and>
   currentDraft (stopSession Fulfils pending_example) = js '' abc '' \<and>
   currentDraft (stopSession Fulfils pending_example) \<noteq> [] \<and>
   map seg_text (transcriptions
     (onmessage tick_example turn_complete
        (onopen 2 (toggleClick (Connected 2 2 2 Fulfils) Fulfils
           (stopSession Fulfils pending_example))))) =
     [js ''abc'']"
  by (simp add: pending_example_eq stopSession_def stopSessionEnd_def toggleClick_def
      startSession_def onopen_def onmessage_def onInputTranscription_def onTurnComplete_def
      turn_complete_def trim_abc tick_example_def)
    (simp add: js_def)

text \<open>
  Claim C4, as the code has it. The start/stop button is the only caller of
  \<open>startSession\<close>. While \<open>CONNECTING\<close> a click changes nothing; while \<open>LISTENING\<close> a
  click is \<open>stopSession\<close>; so in neither state does a click open a capture or a
  session. In every run from the initial state in which each open callback arrives
  while the state is \<open>CONNECTING\<close>, the session state stays or moves along one of the
  edges \<open>IDLE \<rightarrow> CONNECTING\<close>, \<open>CONNECTING \<rightarrow> LISTENING\<close>, \<open>LISTENING \<rightarrow> IDLE\<close>,
  \<open>CONNECTING \<rightarrow> IDLE\<close> at every event, and is never \<open>ERROR\<close>.
\<close>

theorem toggle_guards_start:
  "(appState s = CONNECTING \<longrightarrow> toggleClick out c s = s) \<and>
   (appState s = LISTENING \<longrightarrow> toggleClick out c s = stopSession c s) \<and>
   (appState s = CONNECTING \<or> appState s = LISTENING \<longrightarrow>
      filter opens (trace (toggleClick out c s)) = filter opens (trace s)) \<and>
   (openWhileConnecting v es initial \<longrightarrow>
      follows IDLE (map appState (run v es initial)) \<and>
      ERROR \<notin> set (map appState (run v es initial)))"
proof (intro conjI impI)
  assume "appState s = CONNECTING"
  then show "toggleClick out c s = s" by (simp add: toggleClick_def)
next
  assume "appState s = LISTENING"
  then show "toggleClick out c s = stopSession c s" by (simp add: toggleClick_def)
next
  assume "appState s = CONNECTING \<or> appState s = LISTENING"
  then show "filter opens (trace (toggleClick out c s)) = filter opens (trace s)"
    by (auto simp: toggleClick_def opens_stopSession)
next
  have i: "appState initial \<noteq> ERROR" and j: "appState initial = IDLE"
    by (simp_all add: initial_def)
  assume r: "openWhileConnecting v es initial"
  from run_follows [OF i r] j
  show "follows IDLE (map appState (run v es initial))" by simp
  from run_follows [OF i r]
  show "ERROR \<notin> set (map appState (run v es initial))" by simp
qed

text \<open>
  C4 on a run: a second click while connecting changes nothing, a click while listening
  stops the session and opens nothing, and the run in which every callback arrives in
  its own session follows the state machine.
\<close>

theorem toggle_guards_start_witness:
  "toggleClick (Connected 2 2 2 Fulfils) Fulfils
      (toggleClick (Connected 1 1 1 Fulfils) Fulfils initial) =
     toggleClick (Connected 1 1 1 Fulfils) Fulfils initial \<and>
   appState listening_example = LISTENING \<and>
   toggleClick (Connected 2 2 2 Fulfils) Fulfils listening_example =
     stopSession Fulfils listening_example \<and>
   filter opens (trace (toggleClick (Connected 2 2 2 Fulfils) Fulfils listening_example)) =
     [GetUserMedia 1, LiveConnect 1] \<and>
   openWhileConnecting Scribe orderly_run initial \<and>
   follows IDLE (map appState (run Scribe orderly_run initial))"
proof -
  have c: "appState (toggleClick (Connected 1 1 1 Fulfils) Fulfils initial) = CONNECTING"
    by (simp add: initial_def toggleClick_def startSession_def)
  have l: "appState listening_example = LISTENING"
    by (simp add: listening_example_eq)
  have o: "openWhileConnecting Scribe orderly_run initial"
    by (simp add: orderly_run_def initial_def toggleClick_def startSession_def onopen_def
        onclose_def stopSession_def stopSessionEnd_def)
  have t: "filter opens (trace listening_example) = [GetUserMedia 1, LiveConnect 1]"
    by (simp add: listening_example_eq)
  from toggle_guards_start [of "toggleClick (Connected 1 1 1 Fulfils) Fulfils initial"
      "Connected 2 2 2 Fulfils" Fulfils Scribe orderly_run] c o
  have "toggleClick (Connected 2 2 2 Fulfils) Fulfils
          (toggleClick (Connected 1 1 1 Fulfils) Fulfils initial) =
        toggleClick (Connected 1 1 1 Fulfils) Fulfils initial \<and>
        follows IDLE (map appState (run Scribe orderly_run initial))"
    by blast
  moreover
  from toggle_guards_start [of listening_example "Connected 2 2 2 Fulfils" Fulfils
      Scribe orderly_run] l
  have k: "toggleClick (Connected 2 2 2 Fulfils) Fulfils listening_example =
             stopSession Fulfils listening_example"
    and n: "filter opens
              (trace (toggleClick (Connected 2 2 2 Fulfils) Fulfils listening_example)) =
            filter opens (trace listening_example)"
    by blast+
  from n t
  have "filter opens
          (trace (toggleClick (Connected 2 2 2 Fulfils) Fulfils listening_example)) =
        [GetUserMedia 1, LiveConnect 1]"
    by (rule trans)
  ultimately show ?thesis using l o k by blast
qed

text \<open>
  C4 as stated fails: the callbacks set the state whatever it is. In the run where the
  close callback of a stopped session arrives after the user has started the next one,
  the state goes \<open>CONNECTING \<rightarrow> IDLE\<close> while the second session is being opened, and
  the open callback of the second session then takes it from \<open>IDLE\<close> to \<open>LISTENING\<close>,
  which is no edge of the state machine.
\<close>

theorem late_close_counterexample:
  "map appState (run Scribe late_close_run initial) =
     [CONNECTING, LISTENING, IDLE, CONNECTING, IDLE, LISTENING] \<and>
   \<not> transition IDLE LISTENING \<and>
   \<not> follows IDLE (map appState (run Scribe late_close_run initial))"
proof -
  have r: "map appState (run Scribe late_close_run initial) =
             [CONNECTING, LISTENING, IDLE, CONNECTING, IDLE, LISTENING]"
    by (simp add: late_close_run_def initial_def toggleClick_def startSession_def
        onopen_def onclose_def stopSession_def stopSessionEnd_def)
  show ?thesis unfolding r by (simp add: transition_def)
qed

text \<open>
  Claim C5, as the code has it. In every state, so also while \<open>LISTENING\<close>, the error
  callback sets the session error message and calls \<open>stopSession\<close>; it opens nothing
  again. The state becomes \<open>IDLE\<close>, and every resource ref is cleared, when each awaited
  call that \<open>stopSession\<close> reaches completes; otherwise the state stays as it was.
\<close>

theorem onerror_sets_message_and_idle:
  "errorMessage (onerror c s) = Some SESSION_ERROR \<and>
   appState (onerror c s) = (if teardownCompletes c s then IDLE else appState s) \<and>
   (teardownCompletes c s \<longrightarrow>
      scriptProcessorRef (onerror c s) = None \<and> streamRef (onerror c s) = None \<and>
      audioContextRef (onerror c s) = None \<and> sessionPromiseRef (onerror c s) = None) \<and>
   filter opens (trace (onerror c s)) = filter opens (trace s)"
proof -
  have m: "errorMessage (onerror c s) = Some SESSION_ERROR"
    by (simp add: onerror_def stopSession_def stopSessionEnd_def Let_def
        split: option.splits settle.splits prod.splits)
  have a: "appState (onerror c s) = (if teardownCompletes c s then IDLE else appState s)"
    by (simp add: onerror_def appState_stopSession teardownCompletes_errorMessage)
  have r: "scriptProcessorRef (onerror c s) = None \<and> streamRef (onerror c s) = None \<and>
           audioContextRef (onerror c s) = None \<and> sessionPromiseRef (onerror c s) = None"
    if "teardownCompletes c s"
    using that refs_stopSession [of c "s\<lparr>errorMessage := Some SESSION_ERROR\<rparr>"]
    by (simp add: onerror_def teardownCompletes_errorMessage)
  have t: "filter opens (trace (onerror c s)) = filter opens (trace s)"
    by (simp add: onerror_def opens_stopSession)
  show ?thesis using m a r t by blast
qed

text \<open>C5 on the listening session when the teardown completes: message set, \<open>IDLE\<close>.\<close>

theorem onerror_sets_message_and_idle_witness:
  "teardownCompletes Fulfils listening_example \<and>
   errorMessage (onerror Fulfils listening_example) = Some SESSION_ERROR \<and>
   appState (onerror Fulfils listening_example) = IDLE \<and>
   sessionPromiseRef (onerror Fulfils listening_example) = None"
proof -
  have h: "teardownCompletes Fulfils listening_example"
    by (simp add: teardownCompletes_def listening_example_eq)
  from onerror_sets_message_and_idle [of Fulfils listening_example] h
  show ?thesis by simp
qed

text \<open>
  C5 as stated fails: when \<open>AudioContext.close\<close> rejects, the error callback on the
  listening session sets the message, and the state is still \<open>LISTENING\<close>, with the
  audio context and the session still referenced.
\<close>

theorem onerror_teardown_rejects_counterexample:
  "appState listening_example = LISTENING \<and>
   errorMessage (onerror Rejects listening_example) = Some SESSION_ERROR \<and>
   appState (onerror Rejects listening_example) = LISTENING \<and>
   appState (onerror Rejects listening_example) \<noteq> IDLE \<and>
   audioContextRef (onerror Rejects listening_example) = Some 1 \<and>
   sessionPromiseRef (onerror Rejects listening_example) = Some (1, Fulfils)"
  by (simp add: listening_example_eq onerror_def stopSession_def)

text \<open>
  Claim C6, as the code has it. Whenever the \<open>try\<close> block of \<open>startSession\<close> raises, at
  the microphone request or at any other of its calls, the error message is set and the
  state is \<open>IDLE\<close>; no session promise is stored. When the block completes, the state
  is \<open>CONNECTING\<close> and there is no error message, whatever becomes of the session
  promise it stored.
\<close>

theorem failed_start_reports_and_idles:
  "(raises out \<longrightarrow>
      errorMessage (startSession out s) = Some MIC_DENIED \<and>
      appState (startSession out s) = IDLE \<and>
      sessionPromiseRef (startSession out s) = sessionPromiseRef s) \<and>
   errorMessage (startSession (Connected m a c f) s) = None \<and>
   appState (startSession (Connected m a c f) s) = CONNECTING \<and>
   sessionPromiseRef (startSession (Connected m a c f) s) = Some (c, f)"
  by (cases out) (simp_all add: startSession_def startCatch_def)

text \<open>C6 from the initial state, for a denied microphone and for a failing connect call.\<close>

theorem failed_start_reports_and_idles_witness:
  "raises MicrophoneDenied \<and> raises (ConnectThrows 1 1) \<and>
   errorMessage (startSession MicrophoneDenied initial) = Some MIC_DENIED \<and>
   appState (startSession MicrophoneDenied initial) = IDLE \<and>
   errorMessage (startSession (ConnectThrows 1 1) initial) = Some MIC_DENIED \<and>
   appState (startSession (ConnectThrows 1 1) initial) = IDLE"
  using failed_start_reports_and_idles [of MicrophoneDenied initial]
    failed_start_reports_and_idles [of "ConnectThrows 1 1" initial]
  by simp

text \<open>
  C6 as stated fails: when the session fails to open, the connect promise rejects after
  \<open>startSession\<close> has returned. The state is \<open>CONNECTING\<close> and there is no error
  message. If the error callback then runs, it sets the session error message, its
  \<open>stopSession\<close> ends at the rejected promise, and the state is still \<open>CONNECTING\<close>.
\<close>

theorem session_open_failure_counterexample:
  "errorMessage (startSession (Connected 1 1 1 Rejects) initial) = None \<and>
   appState (startSession (Connected 1 1 1 Rejects) initial) = CONNECTING \<and>
   appState (startSession (Connected 1 1 1 Rejects) initial) \<noteq> IDLE \<and>
   errorMessage (onerror Fulfils (startSession (Connected 1 1 1 Rejects) initial)) =
     Some SESSION_ERROR \<and>
   appState (onerror Fulfils (startSession (Connected 1 1 1 Rejects) initial)) =
     CONNECTING"
  by (simp add: initial_def startSession_def onerror_def stopSession_def
      stopSessionEnd_def)

section \<open>Export and utility layer: the claims\<close>

text \<open>
  Claim C8. With an empty list of segments \<open>saveAsWord\<close> only raises the
  nothing-to-save alert: no download is made and no cell of the component changes.
  With a non-empty list it makes exactly one download, of the document that has one
  block for each segment, in order.
\<close>

theorem save_empty_log_is_noop:
  "(transcriptions s = [] \<longrightarrow>
      saveAsWord v d t s = s\<lparr>trace := trace s @ [Alert NOTHING_TO_SAVE]\<rparr>) \<and>
   (transcriptions s \<noteq> [] \<longrightarrow>
      saveAsWord v d t s =
        s\<lparr>trace := trace s @
           [Download \<lparr> doc_name = fileName v d,
              doc_blocks = map (\<lambda>x. (seg_text x, t (seg_timestamp x)))
                             (transcriptions s) \<rparr>]\<rparr>)"
  by (simp add: saveAsWord_def)

text \<open>
  C8 on the initial state (empty list: the alert alone) and on the session with one
  committed segment (one download).
\<close>

theorem save_empty_log_is_noop_witness:
  "transcriptions initial = [] \<and>
   trace (saveAsWord Scribe (js ''1/2/2026'') (\<lambda>n. js ''10:00'') initial) =
     [Alert NOTHING_TO_SAVE] \<and>
   currentDraft (saveAsWord Scribe (js ''1/2/2026'') (\<lambda>n. js ''10:00'') initial) = [] \<and>
   appState (saveAsWord Scribe (js ''1/2/2026'') (\<lambda>n. js ''10:00'') initial) = IDLE \<and>
   transcriptions committed_example \<noteq> [] \<and>
   trace (saveAsWord Scribe (js ''1/2/2026'') (\<lambda>n. js ''10:00'') committed_example) =
     trace committed_example @
     [Download \<lparr> doc_name = js ''Myanmar_Transcription_1-2-2026.doc'',
        doc_blocks = [(js ''abc'', js ''10:00'')] \<rparr>]"
proof -
  have e: "transcriptions initial = []" by (simp add: initial_def)
  have n: "transcriptions committed_example \<noteq> []" by (simp add: committed_example_eq)
  have f: "fileName Scribe (js ''1/2/2026'') = js ''Myanmar_Transcription_1-2-2026.doc''"
    by (simp add: fileName_def js_def)
  from save_empty_log_is_noop [of initial Scribe "js ''1/2/2026''" "\<lambda>n. js ''10:00''"] e
  have "saveAsWord Scribe (js ''1/2/2026'') (\<lambda>n. js ''10:00'') initial =
          initial\<lparr>trace := trace initial @ [Alert NOTHING_TO_SAVE]\<rparr>"
    by blast
  then have a:
    "trace (saveAsWord Scribe (js ''1/2/2026'') (\<lambda>n. js ''10:00'') initial) =
       [Alert NOTHING_TO_SAVE] \<and>
     currentDraft (saveAsWord Scribe (js ''1/2/2026'') (\<lambda>n. js ''10:00'') initial) = [] \<and>
     appState (saveAsWord Scribe (js ''1/2/2026'') (\<lambda>n. js ''10:00'') initial) = IDLE"
    by (simp add: initial_def)
  from save_empty_log_is_noop
    [of committed_example Scribe "js ''1/2/2026''" "\<lambda>n. js ''10:00''"] n
  have "saveAsWord Scribe (js ''1/2/2026'') (\<lambda>n. js ''10:00'') committed_example =
      committed_example\<lparr>trace := trace committed_example @
           [Download \<lparr> doc_name = fileName Scribe (js ''1/2/2026''),
              doc_blocks = map (\<lambda>x. (seg_text x, js ''10:00''))
                             (transcriptions committed_example) \<rparr>]\<rparr>"
    by blast
  then have b:
    "trace (saveAsWord Scribe (js ''1/2/2026'') (\<lambda>n. js ''10:00'') committed_example) =
       trace committed_example @
       [Download \<lparr> doc_name = js ''Myanmar_Transcription_1-2-2026.doc'',
          doc_blocks = [(js ''abc'', js ''10:00'')] \<rparr>]"
    by (simp add: f) (simp add: committed_example_eq)
  show ?thesis using e n a b by blast
qed

text \<open>
  Claim C9 at the clear-all button of the first variant, confirmed while the draft
  \<open>" abc "\<close> is pending: the list is emptied and the draft is still \<open>" abc "\<close>. The
  \<open>clearAll\<close> of the second variant empties the draft in the same state.
\<close>

theorem clear_pro_keeps_draft:
  "currentDraft pending_example = js '' abc '' \<and>
   currentDraft (clearClick ScribePro True pending_example) = js '' abc '' \<and>
   currentDraft (clearClick ScribePro True pending_example) \<noteq> [] \<and>
   transcriptions (clearClick ScribePro True pending_example) = [] \<and>
   currentDraft (clearClick Scribe True pending_example) = []"
  by (simp add: pending_example_eq clearClick_def clearAll_def) (simp add: js_def)

section \<open>PCM frame encoder: the claims\<close>

text \<open>
  Claim C7. For every rounding that leaves whole numbers as they are, the encoder maps
  the sample 1.0 to 32767, -1.0 to -32768 and 0.0 to 0, every non-finite sample to 0,
  every sample above 1.0 to 32767 and every sample below -1.0 to -32768; the bytes of
  each value are written low byte first.
\<close>

theorem encoder_extremes:
  assumes "\<forall>n. rnd (of_int n) = n"
  shows "sint (encodeSample rnd (Finite 1)) = 32767 \<and>
         sint (encodeSample rnd (Finite (- 1))) = - 32768 \<and>
         encodeSample rnd (Finite 0) = 0 \<and>
         encodeSample rnd NaN = 0 \<and> encodeSample rnd PosInfinity = 0 \<and>
         encodeSample rnd NegInfinity = 0 \<and>
         (1 \<le> x \<longrightarrow> sint (encodeSample rnd (Finite x)) = 32767) \<and>
         (x \<le> - 1 \<longrightarrow> sint (encodeSample rnd (Finite x)) = - 32768) \<and>
         createPcmBlob rnd [Finite 1, Finite (- 1), Finite 0, NaN] =
           [0xFF, 0x7F, 0x00, 0x80, 0x00, 0x00, 0x00, 0x00]"
proof -
  have p: "rnd 32767 = 32767" using assms [rule_format, of 32767] by simp
  have m: "rnd (- 32768) = - 32768" using assms [rule_format, of "- 32768"] by simp
  have z: "rnd 0 = 0" using assms [rule_format, of 0] by simp
  have hi: "encodeSample rnd (Finite y) = 32767" if "1 \<le> y" for y
    using that p
    by (simp add: encodeSample_def clampSample_def scaleSample_def min_def max_def)
  have lo: "encodeSample rnd (Finite y) = word_of_int (- 32768)" if "y \<le> - 1" for y
    using that m
    by (simp add: encodeSample_def clampSample_def scaleSample_def min_def max_def)
  have ze: "encodeSample rnd (Finite 0) = 0"
    using z by (simp add: encodeSample_def clampSample_def scaleSample_def)
  have nf: "encodeSample rnd NaN = 0 \<and> encodeSample rnd PosInfinity = 0 \<and>
            encodeSample rnd NegInfinity = 0"
    by (simp add: encodeSample_def)
  have bytes: "createPcmBlob rnd [Finite 1, Finite (- 1), Finite 0, NaN] =
                 [0xFF, 0x7F, 0x00, 0x80, 0x00, 0x00, 0x00, 0x00]"
    by (simp add: createPcmBlob_def hi lo ze nf littleEndian_def)
  have his: "sint (encodeSample rnd (Finite y)) = 32767" if "1 \<le> y" for y
    using hi [OF that] by simp
  have los: "sint (encodeSample rnd (Finite y)) = - 32768" if "y \<le> - 1" for y
    using lo [OF that] by simp
  have one: "sint (encodeSample rnd (Finite 1)) = 32767" by (rule his) simp
  have mone: "sint (encodeSample rnd (Finite (- 1))) = - 32768" by (rule los) simp
  show ?thesis using one mone his [of x] los [of x] ze nf bytes
    by blast
qed

text \<open>C7 with rounding down, at the samples 1.0, -1.0, 0.0, NaN, 2.0 and -3.0.\<close>

theorem encoder_extremes_witness:
  "(\<forall>n. \<lfloor>of_int n :: real\<rfloor> = n) \<and>
   sint (encodeSample floor (Finite 1)) = 32767 \<and>
   sint (encodeSample floor (Finite (- 1))) = - 32768 \<and>
   encodeSample floor (Finite 0) = 0 \<and>
   encodeSample floor NaN = 0 \<and>
   (1 \<le> (2::real)) \<and> sint (encodeSample floor (Finite 2)) = 32767 \<and>
   (- 3 \<le> (- 1::real)) \<and> sint (encodeSample floor (Finite (- 3))) = - 32768"
proof -
  have h: "\<forall>n. \<lfloor>of_int n :: real\<rfloor> = n" by simp
  from encoder_extremes [OF h, of 2] encoder_extremes [OF h, of "- 3"] h
  show ?thesis by simp
qed

end
